theory Spec2Isabelle
  imports Main "HOL-Library.Sublist"
begin

section \<open>JavaScript string and array primitives used by ProjectDataSource.ts\<close>

text \<open>
  Strings are \<^typ>\<open>string\<close> (character lists). \<open>s.startsWith(p)\<close> is
  \<^term>\<open>prefix p s\<close> and \<open>s.endsWith(p)\<close> is \<^term>\<open>suffix p s\<close>. A value that
  JavaScript tests for truthiness is a string here, and the only falsy string is the
  empty one.
\<close>

abbreviation backslash :: char where
  "backslash \<equiv> CHR 0x5C"

text \<open>\<open>xs.join(sep)\<close> on an array of strings.\<close>

fun join :: "string \<Rightarrow> string list \<Rightarrow> string" where
  "join sep [] = []"
| "join sep [x] = x"
| "join sep (x # y # ys) = x @ sep @ join sep (y # ys)"

text \<open>
  \<open>s.split(re)\<close> for a regular expression that matches exactly one character of a
  class, such as \<open>/[\/\\]/g\<close>: the string is cut at every character of the class; the
  result always has at least one element.
\<close>

fun splitBy :: "(char \<Rightarrow> bool) \<Rightarrow> string \<Rightarrow> string list" where
  "splitBy p [] = [[]]"
| "splitBy p (c # cs) =
     (if p c then [] # splitBy p cs
      else (case splitBy p cs of
              [] \<Rightarrow> [[c]]
            | w # ws \<Rightarrow> (c # w) # ws))"

text \<open>
  \<open>s.split(sep)\<close> for a string separator. An empty separator cuts the string into its
  characters (and the empty string into no piece at all); otherwise the string is cut
  at every occurrence of the separator, scanning from the left.
\<close>

fun split_on :: "string \<Rightarrow> string \<Rightarrow> string list" where
  "split_on sep [] = [[]]"
| "split_on sep (c # cs) =
     (if sep \<noteq> [] \<and> prefix sep (c # cs)
      then [] # split_on sep (drop (length sep - 1) cs)
      else (case split_on sep cs of
              [] \<Rightarrow> [[c]]
            | w # ws \<Rightarrow> (c # w) # ws))"

definition js_split :: "string \<Rightarrow> string \<Rightarrow> string list" where
  "js_split sep s = (if sep = [] then map (\<lambda>c. [c]) s else split_on sep s)"

text \<open>
  \<open>s.replace(pat, rep)\<close> for a string pattern: only the first occurrence of the
  pattern is replaced (an empty pattern occurs at position 0). The replacement strings
  of the source hold no \<open>$\<close>, so they are inserted as they are.
\<close>

fun replace_first :: "string \<Rightarrow> string \<Rightarrow> string \<Rightarrow> string" where
  "replace_first pat rep [] = (if pat = [] then rep else [])"
| "replace_first pat rep (c # cs) =
     (if prefix pat (c # cs) then rep @ drop (length pat) (c # cs)
      else c # replace_first pat rep cs)"

text \<open>\<open>s.replace(/c/g, rep)\<close> for a single literal character \<open>c\<close>.\<close>

definition replace_char :: "char \<Rightarrow> string \<Rightarrow> string \<Rightarrow> string" where
  "replace_char c rep s = concat (map (\<lambda>x. if x = c then rep else [x]) s)"

section \<open>getLongestCommonPrefixFromPaths\<close>

text \<open>
  \<open>getPathParts\<close> splits on \<open>/[\/\\]/g\<close>. The candidate \<open>lcp\<close> is a JavaScript
  array in which \<open>delete lcp[i]\<close> leaves a hole: it is a list of options, \<open>None\<close> being
  a hole. Reading \<open>lcp[i]\<close> at a hole or beyond the length gives \<open>undefined\<close>, which
  differs from every string; \<open>delete\<close> never changes the length and does nothing
  beyond it.
\<close>

definition getPathParts :: "string \<Rightarrow> string list" where
  "getPathParts pathname = splitBy (\<lambda>c. c = CHR ''/'' \<or> c = backslash) pathname"

definition readAt :: "string option list \<Rightarrow> nat \<Rightarrow> string option" where
  "readAt lcp i = (if i < length lcp then lcp ! i else None)"

definition deleteAt :: "string option list \<Rightarrow> nat \<Rightarrow> string option list" where
  "deleteAt lcp i = (if i < length lcp then lcp[i := None] else lcp)"

text \<open>
  The inner loop \<open>for (let i = pathParts.length - 1; i >= 0; i--)\<close>:
  \<open>scanParts pathParts n (lcp, end)\<close> runs the iterations \<open>i = n - 1, ..., 0\<close>.
\<close>

fun scanParts :: "string list \<Rightarrow> nat \<Rightarrow> string option list \<times> nat \<Rightarrow> string option list \<times> nat" where
  "scanParts pathParts 0 (lcp, end) = (lcp, end)"
| "scanParts pathParts (Suc i) (lcp, end) =
     scanParts pathParts i
       (if readAt lcp i \<noteq> Some (pathParts ! i) then (deleteAt lcp i, i) else (lcp, end))"

text \<open>
  The outer loop over \<open>paths.slice(1)\<close>, with its early return, and the final
  \<open>lcp.slice(0, end).join(path.sep)\<close>; \<open>join\<close> prints a hole as the empty string.
\<close>

fun lcpLoop :: "string \<Rightarrow> string list \<Rightarrow> string option list \<Rightarrow> nat \<Rightarrow> string" where
  "lcpLoop sep [] lcp end = join sep (map (case_option [] id) (take end lcp))"
| "lcpLoop sep (filename # rest) lcp end =
     (let pathParts = getPathParts filename;
          (lcp', end') = scanParts pathParts (length pathParts) (lcp, end)
      in if length lcp' = 0 then [] else lcpLoop sep rest lcp' end')"

text \<open>\<open>sep\<close> is \<open>path.sep\<close> of the platform's path module.\<close>

definition getLongestCommonPrefixFromPaths :: "string \<Rightarrow> string list \<Rightarrow> string" where
  "getLongestCommonPrefixFromPaths sep paths =
     (case paths of
        [] \<Rightarrow> []
      | p0 # others \<Rightarrow>
          if p0 = [] then []
          else let lcp = getPathParts p0 in
            if length paths = 1 then join sep (butlast lcp)
            else lcpLoop sep others (map Some lcp) (length lcp))"

section \<open>The path module\<close>

text \<open>
  \<open>path\<close> is Node's platform path module, which is not part of the repository: the
  functions take the calls they make to it as a parameter. \<open>path_parse_base p\<close> is
  \<open>path.parse(p).base\<close>.
\<close>

record path_module =
  path_sep :: string
  path_relative :: "string \<Rightarrow> string \<Rightarrow> string"
  path_parse_base :: "string \<Rightarrow> string"
  path_extname :: "string \<Rightarrow> string"

text \<open>
  The POSIX flavour of the module, after Node's documentation, for running the
  functions on concrete paths. The base name is the last portion of the path, trailing
  slashes ignored. The extension runs from the last dot of the base name to its end; it
  is empty when the base name has no dot, when its only dot is its first character, and
  for the base name \<open>..\<close>. \<open>relative\<close> resolves both paths against the working
  directory, drops their common leading segments, and climbs with one \<open>..\<close> for each
  segment left of the first.
\<close>

definition posix_base :: "string \<Rightarrow> string" where
  "posix_base p =
     rev (takeWhile (\<lambda>c. c \<noteq> CHR ''/'') (dropWhile (\<lambda>c. c = CHR ''/'') (rev p)))"

definition posix_ext_of :: "string \<Rightarrow> string" where
  "posix_ext_of b =
     (if CHR ''.'' \<notin> set b then []
      else let e = rev (takeWhile (\<lambda>c. c \<noteq> CHR ''.'') (rev b))
           in if Suc (length e) = length b \<or> b = ''..'' then [] else CHR ''.'' # e)"

definition posix_extname :: "string \<Rightarrow> string" where
  "posix_extname p = posix_ext_of (posix_base p)"

fun normalizeSegments :: "string list \<Rightarrow> string list \<Rightarrow> string list" where
  "normalizeSegments acc [] = acc"
| "normalizeSegments acc (s # ss) =
     (if s = [] \<or> s = ''.'' then normalizeSegments acc ss
      else if s = ''..'' then normalizeSegments (butlast acc) ss
      else normalizeSegments (acc @ [s]) ss)"

definition posix_resolve :: "string \<Rightarrow> string \<Rightarrow> string list" where
  "posix_resolve cwd p =
     normalizeSegments []
       (splitBy (\<lambda>c. c = CHR ''/'') (if prefix ''/'' p then p else cwd @ ''/'' @ p))"

fun dropCommon :: "string list \<Rightarrow> string list \<Rightarrow> string list \<times> string list" where
  "dropCommon (a # as) (b # bs) = (if a = b then dropCommon as bs else (a # as, b # bs))"
| "dropCommon as bs = (as, bs)"

definition posix_relative :: "string \<Rightarrow> string \<Rightarrow> string \<Rightarrow> string" where
  "posix_relative cwd from to =
     (if from = to then []
      else let (a, b) = dropCommon (posix_resolve cwd from) (posix_resolve cwd to)
           in join ''/'' (map (\<lambda>_. ''..'') a @ b))"

definition posix :: "string \<Rightarrow> path_module" where
  "posix cwd =
     \<lparr> path_sep = ''/'',
       path_relative = posix_relative cwd,
       path_parse_base = posix_base,
       path_extname = posix_extname \<rparr>"

section \<open>transformSpec\<close>

datatype TestingType = e2e | component

datatype SpecType = component_spec | integration_spec

record FoundSpec =
  fileExtension :: string
  baseName :: string
  fileName :: string
  specFileExtension :: string
  specType :: SpecType
  name :: string
  relative :: string
  absolute :: string

record SpecWithRelativeRoot = FoundSpec +
  relativeToCommonRoot :: string

text \<open>
  Modelled from the spec: \<open>toPosix\<close> of \<open>../util/file\<close>, which is not among the
  sources. Section 4.1: on platforms whose native separator is not \<open>/\<close>, replace
  every occurrence of the native separator with \<open>/\<close>; a no-op otherwise.
\<close>

definition toPosix :: "string \<Rightarrow> string \<Rightarrow> string" where
  "toPosix file sep =
     (if sep = ''/'' \<or> sep = [] then file else join ''/'' (split_on sep file))"

text \<open>
  \<open>s.replace(/^\/|/g, '')\<close>: at position 0 the first alternative takes a leading
  slash if there is one; everywhere else only the empty alternative matches, and
  replacing an empty match by the empty string changes nothing.
\<close>

definition stripLeadingSlash :: "string \<Rightarrow> string" where
  "stripLeadingSlash s = (if prefix ''/'' s then drop 1 s else s)"

definition specSuffixes :: "string list" where
  "specSuffixes = [''.spec'', ''.test'', ''-spec'', ''-test'', ''.cy'']"

text \<open>
  \<open>xs.find(p) || fallback\<close>: the first element that satisfies \<open>p\<close>, unless there is
  none or it is the empty string.
\<close>

definition findOr :: "(string \<Rightarrow> bool) \<Rightarrow> string list \<Rightarrow> string \<Rightarrow> string" where
  "findOr p xs fallback =
     (case find p xs of
        None \<Rightarrow> fallback
      | Some x \<Rightarrow> if x = [] then fallback else x)"

definition transformSpec ::
  "path_module \<Rightarrow> string \<Rightarrow> string \<Rightarrow> TestingType \<Rightarrow> string \<Rightarrow> string \<Rightarrow> string
     \<Rightarrow> SpecWithRelativeRoot" where
  "transformSpec path projectRoot0 absolute0 testingType commonRoot platform sep =
     (let absolute1 = (if platform = ''win32'' then toPosix absolute0 sep else absolute0);
          projectRoot = (if platform = ''win32'' then toPosix projectRoot0 sep else projectRoot0);
          relative1 = path_relative path projectRoot absolute1;
          parsedBase = path_parse_base path absolute1;
          fileExtension1 = path_extname path absolute1;
          specFileExtension1 =
            findOr (\<lambda>ext. suffix ext absolute1)
              (map (\<lambda>ext. ext @ fileExtension1) specSuffixes) fileExtension1;
          parts = js_split projectRoot absolute1;
          name0 = (if parts = [] then [] else last parts);
          name1 = (if prefix ''/'' name0 then drop 1 name0 else name0);
          relativeToCommonRoot1 = stripLeadingSlash (replace_first commonRoot [] absolute1)
      in \<lparr> fileExtension = fileExtension1,
           baseName = parsedBase,
           fileName = replace_first specFileExtension1 [] parsedBase,
           specFileExtension = specFileExtension1,
           specType = (if testingType = component then component_spec else integration_spec),
           name = name1,
           relative = relative1,
           absolute = absolute1,
           relativeToCommonRoot = relativeToCommonRoot1 \<rparr>)"

section \<open>getLongestCommonPrefixFromGlob\<close>

text \<open>A thrown JavaScript \<open>Error\<close>, with its message.\<close>

datatype error = Error string

text \<open>
  The function calls four libraries that are not part of the repository: \<open>parse-glob\<close>,
  \<open>micromatch\<close> (its \<open>braces\<close> expansion and its matcher with \<open>basename: true\<close>) and
  \<open>randexp\<close>. They are a parameter; each call may throw. Of the parsed glob the function
  reads \<open>is.glob\<close> and, under \<open>path\<close>, \<open>dirname\<close>, \<open>filename\<close>, \<open>extname\<close> and
  \<open>ext\<close>. \<open>randexp_gen src\<close> is \<open>new RandExp(src).gen()\<close>.
\<close>

record ParsedGlob =
  is_glob :: bool
  glob_dirname :: string
  glob_filename :: string
  glob_extname :: string
  glob_ext :: string

record glob_libs =
  parseGlob :: "string \<Rightarrow> error + ParsedGlob"
  mm_braces :: "string \<Rightarrow> error + string list"
  mm_basename :: "string list \<Rightarrow> string \<Rightarrow> error + string list"
  randexp_gen :: "string \<Rightarrow> error + string"

datatype FileExtension = js | ts

fun extensionName :: "FileExtension \<Rightarrow> string" where
  "extensionName js = ''js''"
| "extensionName ts = ''ts''"

fun testingTypeName :: "TestingType \<Rightarrow> string" where
  "testingTypeName e2e = ''e2e''"
| "testingTypeName component = ''component''"

definition replaceWildCard :: "string \<Rightarrow> string \<Rightarrow> string" where
  "replaceWildCard s fallback = replace_char (CHR ''*'') fallback s"

text \<open>\<open>xs[0]\<close>, which is \<open>undefined\<close> on an empty array.\<close>

definition first :: "'a list \<Rightarrow> 'a option" where
  "first xs = (case xs of [] \<Rightarrow> None | x # _ \<Rightarrow> Some x)"

text \<open>
  The part of the function after the brace expansion: the choice of \<open>finalGlob\<close>, the
  return of \<open>undefined\<close> when it is missing or empty, and the generated example.
\<close>

definition generateFromGlobs ::
  "glob_libs \<Rightarrow> string list \<Rightarrow> FileExtension option \<Rightarrow> error + string option" where
  "generateFromGlobs libs globWithoutBraces fileExtensionToUse =
     (let finalGlob0 = first globWithoutBraces;
          filtered =
            (case fileExtensionToUse of
               None \<Rightarrow> Inr finalGlob0
             | Some ext \<Rightarrow>
                 (case mm_basename libs globWithoutBraces (''*.'' @ extensionName ext) of
                    Inl err \<Rightarrow> Inl err
                  | Inr filteredGlob \<Rightarrow>
                      Inr (if filteredGlob \<noteq> [] then first filteredGlob else finalGlob0)))
      in case filtered of
           Inl err \<Rightarrow> Inl err
         | Inr None \<Rightarrow> Inr None
         | Inr (Some finalGlob) \<Rightarrow>
             if finalGlob = [] then Inr None
             else (case randexp_gen libs (replace_char (CHR ''.'') [backslash, CHR ''.''] finalGlob) of
                     Inl err \<Rightarrow> Inl err
                   | Inr example \<Rightarrow> Inr (Some example)))"

definition getLongestCommonPrefixFromGlob ::
  "glob_libs \<Rightarrow> string \<Rightarrow> TestingType \<Rightarrow> FileExtension option \<Rightarrow> error + string option" where
  "getLongestCommonPrefixFromGlob libs inputGlob testingType fileExtensionToUse =
     (case parseGlob libs inputGlob of
        Inl err \<Rightarrow> Inl err
      | Inr parsedGlob \<Rightarrow>
          if \<not> is_glob parsedGlob then Inr (Some inputGlob)
          else
            let dirname0 = glob_dirname parsedGlob;
                dirname = (if prefix ''**'' dirname0
                           then replace_first ''**'' ''cypress'' dirname0 else dirname0);
                splittedDirname =
                  join ''/'' (map (\<lambda>x. replaceWildCard x (testingTypeName testingType))
                    (filter (\<lambda>s. s \<noteq> ''**'') (js_split ''/'' dirname)));
                fileName1 = replaceWildCard (glob_filename parsedGlob) ''filename'';
                extnameWithoutExt =
                  replace_first (glob_ext parsedGlob) [] (glob_extname parsedGlob);
                extname0 = replaceWildCard extnameWithoutExt ''cy'';
                extname1 = (if prefix ''.'' extname0 then drop 1 extname0 else extname0);
                extname2 = (if suffix ''.'' extname1 then butlast extname1 else extname1);
                basename =
                  join ''.'' (filter (\<lambda>s. s \<noteq> []) [fileName1, extname2, glob_ext parsedGlob]);
                glob = splittedDirname @ basename
            in case mm_braces libs glob of
                 Inl err \<Rightarrow> Inl err
               | Inr globWithoutBraces \<Rightarrow>
                   generateFromGlobs libs globWithoutBraces fileExtensionToUse)"

text \<open>
  An instance of the four library calls, after the libraries' documentation, for
  running the function on concrete globs. It stands for the libraries on a fragment
  only, and answers with an error of its own everywhere else, where the libraries
  would answer with a value:
  \<^item> \<open>plain_parseGlob\<close> covers the globs that hold none of \<open>{ } [ ] ( )\<close> and do
    not end in a slash. \<open>basename\<close> is what follows the last slash of the glob and
    \<open>dirname\<close> the glob with every occurrence of the base name removed (empty for a
    glob without a slash); \<open>filename\<close> is the base name before its first dot,
    \<open>extname\<close> the base name from its first dot, \<open>ext\<close> what follows its last dot;
    \<open>is.glob\<close> holds when the glob has one of the characters
    \<open>* ! ? { } ( | ) [ ]\<close>.
  \<^item> \<open>plain_braces\<close> covers the patterns without a brace, which the expansion
    leaves alone.
  \<^item> \<open>plain_basename\<close> covers the pattern \<open>*.ext\<close> on literal paths: a path
    matches by its base name when the base name ends with \<open>.ext\<close>, is longer than
    it and does not start with a dot.
  \<^item> \<open>plain_randexp\<close> covers the regular expressions made of literal characters and
    escaped dots, and generates the string they spell.
\<close>

definition plain_parseGlob :: "string \<Rightarrow> error + ParsedGlob" where
  "plain_parseGlob glob =
     (let basename = rev (takeWhile (\<lambda>c. c \<noteq> CHR ''/'') (rev glob));
          dirname = concat (split_on basename glob);
          filename = takeWhile (\<lambda>c. c \<noteq> CHR ''.'') basename;
          extname = dropWhile (\<lambda>c. c \<noteq> CHR ''.'') basename
      in if basename = [] \<or> (\<exists>c \<in> set glob. c \<in> set ''{}[]()'')
         then Inl (Error ''glob outside the fragment of the instance'')
         else Inr \<lparr> is_glob = (\<exists>c \<in> set glob. c \<in> set ''*!?{}(|)[]''),
                    glob_dirname = dirname,
                    glob_filename = filename,
                    glob_extname = extname,
                    glob_ext = (if extname = [] then []
                                else rev (takeWhile (\<lambda>c. c \<noteq> CHR ''.'') (rev extname))) \<rparr>)"

definition plain_braces :: "string \<Rightarrow> error + string list" where
  "plain_braces glob =
     (if CHR ''{'' \<in> set glob then Inl (Error ''glob outside the fragment of the instance'')
      else Inr [glob])"

definition plain_basename :: "string list \<Rightarrow> string \<Rightarrow> error + string list" where
  "plain_basename globs pat =
     (if prefix ''*.'' pat \<and> (\<forall>c \<in> set (drop 1 pat @ concat globs). c \<notin> set ''*!?{}(|)[]'')
      then Inr (filter (\<lambda>g. let b = rev (takeWhile (\<lambda>c. c \<noteq> CHR ''/'') (rev g))
                              in suffix (drop 1 pat) b \<and> length (drop 1 pat) < length b
                                 \<and> \<not> prefix ''.'' b) globs)
      else Inl (Error ''glob outside the fragment of the instance''))"

fun literalRegex :: "string \<Rightarrow> string option" where
  "literalRegex [] = Some []"
| "literalRegex (c # cs) =
     (if c = backslash then
        (case cs of
           [] \<Rightarrow> None
         | d # ds \<Rightarrow> if d = CHR ''.'' then map_option ((#) d) (literalRegex ds) else None)
      else if c \<in> set ''.*+?^${}()|[]'' then None
      else map_option ((#) c) (literalRegex cs))"

definition plain_randexp :: "string \<Rightarrow> error + string" where
  "plain_randexp src =
     (case literalRegex src of
        None \<Rightarrow> Inl (Error ''pattern outside the fragment of the instance'')
      | Some example \<Rightarrow> Inr example)"

definition plain_libs :: glob_libs where
  "plain_libs =
     \<lparr> parseGlob = plain_parseGlob,
       mm_braces = plain_braces,
       mm_basename = plain_basename,
       randexp_gen = plain_randexp \<rparr>"

section \<open>ProjectDataSource\<close>

text \<open>
  What the class reads of its \<open>DataContext\<close>: the current project, the current testing
  type, \<open>lifecycleManager.fileExtensionToUse\<close>, and the outcome of
  \<open>lifecycleManager.getFullInitialConfig()\<close>, which may reject. A configured pattern is
  a string, an array of strings, or \<open>undefined\<close>.
\<close>

datatype PatternConfig = Undefined | Str string | Arr "string list"

record Config =
  cfg_specPattern :: PatternConfig
  cfg_excludeSpecPattern :: PatternConfig

record DataContext =
  currentProject :: "string option"
  currentTestingType :: "TestingType option"
  fileExtensionToUse :: FileExtension
  fullInitialConfig :: "error + Config"

text \<open>
  The file watcher is \<open>chokidar\<close>'s: \<open>chokidar.watch(paths, options)\<close> makes a handle,
  \<open>on\<close> registers a listener on it. The listener of the source is the debounced
  \<open>onProjectFileSystemChange\<close>, kept here as its delay and the variables it captures.
  \<open>close()\<close> returns a promise, which the environment resolves or rejects.
\<close>

record Listener =
  debounceWait :: nat
  l_projectRoot :: string
  l_testingType :: TestingType
  l_specPattern :: "string list"
  l_excludeSpecPattern :: "string list"
  l_additionalIgnore :: "string list"

record FSWatcher =
  watched :: string
  ignoreInitial :: bool
  cwd :: string
  ignored :: "string list"
  listeners :: "(string \<times> Listener) list"

definition chokidar_watch :: "string \<Rightarrow> bool \<Rightarrow> string \<Rightarrow> string list \<Rightarrow> FSWatcher" where
  "chokidar_watch paths ignoreInitial1 cwd1 ignored1 =
     \<lparr> watched = paths, ignoreInitial = ignoreInitial1, cwd = cwd1, ignored = ignored1,
       listeners = [] \<rparr>"

definition on :: "FSWatcher \<Rightarrow> string \<Rightarrow> Listener \<Rightarrow> FSWatcher" where
  "on w event listener = w\<lparr>listeners := listeners w @ [(event, listener)]\<rparr>"

datatype 'a promise = Resolved 'a | Rejected error

text \<open>\<open>p.catch(handler)\<close>: a rejection is handled and the promise resolves.\<close>

definition catch :: "'a promise \<Rightarrow> (error \<Rightarrow> 'a) \<Rightarrow> 'a promise" where
  "catch p handler = (case p of Resolved v \<Rightarrow> Resolved v | Rejected err \<Rightarrow> Resolved (handler err))"

text \<open>
  The state of a \<open>ProjectDataSource\<close>: its context and its two private fields, with
  the trace of what it did to the outside: the watchers it closed, and the rejections of
  promises it dropped without handling them.
\<close>

datatype Effect = Closed FSWatcher | UnhandledRejection error

record ProjectDataSource =
  ctx :: DataContext
  specWatcher :: "FSWatcher option"
  specs :: "FoundSpec list"
  effects :: "Effect list"

text \<open>\<open>!this.ctx.currentProject\<close>: the project is \<open>null\<close> or the empty string.\<close>

definition noCurrentProject :: "DataContext \<Rightarrow> bool" where
  "noCurrentProject c = (case currentProject c of None \<Rightarrow> True | Some p \<Rightarrow> p = [])"

record SpecPatterns =
  specPattern :: "string list option"
  excludeSpecPattern :: "string list option"

definition toArray :: "PatternConfig \<Rightarrow> string list option" where
  "toArray val =
     (case val of
        Undefined \<Rightarrow> None
      | Str v \<Rightarrow> if v = [] then None else Some [v]
      | Arr vs \<Rightarrow> Some vs)"

definition specPatterns :: "ProjectDataSource \<Rightarrow> error + SpecPatterns" where
  "specPatterns s =
     (case fullInitialConfig (ctx s) of
        Inl err \<Rightarrow> Inl err
      | Inr config \<Rightarrow>
          Inr \<lparr> specPattern = toArray (cfg_specPattern config),
                excludeSpecPattern = toArray (cfg_excludeSpecPattern config) \<rparr>)"

text \<open>
  \<open>stopSpecWatcher\<close>: \<open>close\<close> is the environment's answer to \<open>close()\<close> on a
  handle. The promise is not awaited; were it still rejected after \<open>catch\<close>, the
  rejection would be unhandled.
\<close>

definition stopSpecWatcher ::
  "(FSWatcher \<Rightarrow> unit promise) \<Rightarrow> ProjectDataSource \<Rightarrow> (error + unit) \<times> ProjectDataSource" where
  "stopSpecWatcher close s =
     (case specWatcher s of
        None \<Rightarrow> (Inr (), s)
      | Some w \<Rightarrow>
          let dropped = catch (close w) (\<lambda>_. ())
          in (Inr (),
              s\<lparr> specWatcher := None,
                 effects := effects s @ Closed w #
                   (case dropped of Resolved _ \<Rightarrow> [] | Rejected err \<Rightarrow> [UnhandledRejection err]) \<rparr>))"

definition startSpecWatcher ::
  "(FSWatcher \<Rightarrow> unit promise) \<Rightarrow> ProjectDataSource \<Rightarrow> string \<Rightarrow> TestingType \<Rightarrow> string list
     \<Rightarrow> string list \<Rightarrow> string list \<Rightarrow> (error + unit) \<times> ProjectDataSource" where
  "startSpecWatcher close s projectRoot testingType specPattern1 excludeSpecPattern1 additionalIgnore =
     (case stopSpecWatcher close s of
        (Inl err, s1) \<Rightarrow> (Inl err, s1)
      | (Inr _, s1) \<Rightarrow>
          if noCurrentProject (ctx s1)
          then (Inl (Error ''Cannot start spec watcher without current project''), s1)
          else
            let onProjectFileSystemChange =
                  \<lparr> debounceWait = 250, l_projectRoot = projectRoot, l_testingType = testingType,
                    l_specPattern = specPattern1, l_excludeSpecPattern = excludeSpecPattern1,
                    l_additionalIgnore = additionalIgnore \<rparr>;
                w = chokidar_watch ''.'' True projectRoot
                      (''**/node_modules/**'' # excludeSpecPattern1 @ additionalIgnore)
            in (Inr (), s1\<lparr>specWatcher := Some (on w ''all'' onProjectFileSystemChange)\<rparr>))"

text \<open>
  \<open>defaultSpecFileName\<close>. The template literal prints a testing type that is \<open>null\<close>
  as \<open>null\<close>. \<open>defaultSpecPattern\<close> is the table of \<open>@packages/config\<close>, which is not
  among the sources: it is a parameter. The body of the \<open>try\<close> is a function of its
  own; whatever it throws, the \<open>catch\<close> answers with the default file name.
\<close>

definition defaultFilenameOf :: "DataContext \<Rightarrow> string" where
  "defaultFilenameOf c =
     ''cypress/'' @ (case currentTestingType c of None \<Rightarrow> ''null'' | Some t \<Rightarrow> testingTypeName t)
       @ ''/filename.cy.'' @ extensionName (fileExtensionToUse c) @ ''/''"

definition defaultSpecFileNameTry ::
  "path_module \<Rightarrow> glob_libs \<Rightarrow> (TestingType \<Rightarrow> string) \<Rightarrow> ProjectDataSource \<Rightarrow> string
     \<Rightarrow> error + string option" where
  "defaultSpecFileNameTry path libs defaultSpecPattern s defaultFilename =
     (if noCurrentProject (ctx s) then Inr None
      else case currentTestingType (ctx s) of
        None \<Rightarrow> Inr None
      | Some testingType \<Rightarrow>
            (case specPatterns s of
               Inl err \<Rightarrow> Inl err
             | Inr patterns \<Rightarrow>
                 let specPattern1 = (case specPattern patterns of None \<Rightarrow> [] | Some ps \<Rightarrow> ps);
                     specPatternSet = first specPattern1
                 in case specPatternSet of
                      None \<Rightarrow> Inr (Some defaultFilename)
                    | Some pat \<Rightarrow>
                        if pat = [] then Inr (Some defaultFilename)
                        else if pat = defaultSpecPattern testingType then Inr (Some defaultFilename)
                        else
                          let filenameFromSpecs =
                                getLongestCommonPrefixFromPaths (path_sep path) (map relative (specs s))
                          in if filenameFromSpecs \<noteq> [] then Inr (Some filenameFromSpecs)
                             else
                               (case getLongestCommonPrefixFromGlob libs pat testingType
                                       (Some (fileExtensionToUse (ctx s))) of
                                  Inl err \<Rightarrow> Inl err
                                | Inr None \<Rightarrow> Inr (Some defaultFilename)
                                | Inr (Some filenameFromGlob) \<Rightarrow>
                                    if filenameFromGlob \<noteq> [] then Inr (Some filenameFromGlob)
                                    else Inr (Some defaultFilename))))"

definition defaultSpecFileName ::
  "path_module \<Rightarrow> glob_libs \<Rightarrow> (TestingType \<Rightarrow> string) \<Rightarrow> ProjectDataSource \<Rightarrow> string option" where
  "defaultSpecFileName path libs defaultSpecPattern s =
     (let defaultFilename = defaultFilenameOf (ctx s)
      in case defaultSpecFileNameTry path libs defaultSpecPattern s defaultFilename of
           Inl err \<Rightarrow> Some defaultFilename
         | Inr result \<Rightarrow> result)"

text \<open>
  \<open>matchesSpecPattern\<close>. \<open>minimatch specFile pattern\<close> is the library's answer
  under \<open>{ dot: true, matchBase: true }\<close>. Each \<open>for\<close> loop returns at the first
  pattern that matches.
\<close>

fun firstMatch :: "(string \<Rightarrow> string \<Rightarrow> bool) \<Rightarrow> string \<Rightarrow> string list \<Rightarrow> bool" where
  "firstMatch minimatch specFile [] = False"
| "firstMatch minimatch specFile (pattern # rest) =
     (if minimatch specFile pattern then True else firstMatch minimatch specFile rest)"

definition matchesSpecPattern ::
  "(string \<Rightarrow> string \<Rightarrow> bool) \<Rightarrow> ProjectDataSource \<Rightarrow> string \<Rightarrow> error + bool" where
  "matchesSpecPattern minimatch s specFile =
     (if noCurrentProject (ctx s) \<or> currentTestingType (ctx s) = None then Inr False
      else
        (case specPatterns s of
           Inl err \<Rightarrow> Inl err
         | Inr patterns \<Rightarrow>
             let specPattern1 = (case specPattern patterns of None \<Rightarrow> [] | Some ps \<Rightarrow> ps);
                 excludeSpecPattern1 =
                   (case excludeSpecPattern patterns of None \<Rightarrow> [] | Some ps \<Rightarrow> ps)
             in if firstMatch minimatch specFile excludeSpecPattern1 then Inr False
                else if firstMatch minimatch specFile specPattern1 then Inr True
                else Inr False))"

section \<open>Reference notions for the path prefix\<close>

text \<open>
  The reading of ``the deepest prefix shared by all paths'': the longest list of leading
  segments that the first path has in common with every other path.
\<close>

fun sharedSegments :: "string list \<Rightarrow> string list list \<Rightarrow> string list" where
  "sharedSegments acc [] = acc"
| "sharedSegments acc (q # qs) = sharedSegments (longest_common_prefix acc q) qs"

text \<open>
  The invariant of the outer loop of \<open>getLongestCommonPrefixFromPaths\<close>, for the
  segments \<open>parts0\<close> of the first path: the candidate keeps its length, holds the
  segments of the first path below \<open>end\<close>, and reads as \<open>undefined\<close> at \<open>end\<close>.
\<close>

definition agrees :: "string list \<Rightarrow> string option list \<Rightarrow> nat \<Rightarrow> bool" where
  "agrees parts0 lcp e =
     (length lcp = length parts0 \<and> e \<le> length parts0
      \<and> (\<forall>i<e. readAt lcp i = Some (parts0 ! i)) \<and> readAt lcp e = None)"

section \<open>Concrete inputs\<close>

text \<open>
  A project at \<open>/p\<close> under end-to-end testing with JavaScript specs and no configured
  pattern, and ways to vary it. \<open>sampleDefaultSpecPattern\<close> fills the parameter for the
  table of default patterns.
\<close>

definition exampleContext :: DataContext where
  "exampleContext =
     \<lparr> currentProject = Some ''/p'', currentTestingType = Some e2e, fileExtensionToUse = js,
       fullInitialConfig =
         Inr \<lparr> cfg_specPattern = Undefined, cfg_excludeSpecPattern = Undefined \<rparr> \<rparr>"

definition exampleSource :: ProjectDataSource where
  "exampleSource = \<lparr> ctx = exampleContext, specWatcher = None, specs = [], effects = [] \<rparr>"

definition withConfig ::
  "PatternConfig \<Rightarrow> PatternConfig \<Rightarrow> ProjectDataSource \<Rightarrow> ProjectDataSource" where
  "withConfig incl excl s =
     s\<lparr>ctx := (ctx s)\<lparr>fullInitialConfig :=
          Inr \<lparr> cfg_specPattern = incl, cfg_excludeSpecPattern = excl \<rparr>\<rparr>\<rparr>"

definition withoutProject :: "ProjectDataSource \<Rightarrow> ProjectDataSource" where
  "withoutProject s = s\<lparr>ctx := (ctx s)\<lparr>currentProject := None\<rparr>\<rparr>"

definition sampleDefaultSpecPattern :: "TestingType \<Rightarrow> string" where
  "sampleDefaultSpecPattern t =
     (case t of
        e2e \<Rightarrow> ''cypress/e2e/**/*.cy.{js,jsx,ts,tsx}''
      | component \<Rightarrow> ''**/*.cy.{js,jsx,ts,tsx}'')"



definition exampleWatcher :: FSWatcher where
  "exampleWatcher = chokidar_watch ''.'' True ''/p'' [''**/node_modules/**'']"

definition closeRejects :: "FSWatcher \<Rightarrow> unit promise" where
  "closeRejects w = Rejected (Error ''close failed'')"

text \<open>
  A matcher for patterns without glob characters, after \<open>minimatch\<close> under
  \<open>matchBase\<close>: a pattern without a slash matches the paths whose base name it is, a
  pattern with a slash matches the path equal to it.
\<close>

definition literalMatch :: "string \<Rightarrow> string \<Rightarrow> bool" where
  "literalMatch specFile pattern =
     (if CHR ''/'' \<in> set pattern then specFile = pattern
      else rev (takeWhile (\<lambda>c. c \<noteq> CHR ''/'') (rev specFile)) = pattern)"

text \<open>The regular expression source \<open>cypress/e2e/filename\.cy\.js\<close>.\<close>

definition escapedExample :: string where
  "escapedExample = ''cypress/e2e/filename'' @ [backslash] @ ''.cy'' @ [backslash] @ ''.js''"

section \<open>Properties\<close>

lemmas source_defs = exampleSource_def exampleContext_def withConfig_def withoutProject_def
  noCurrentProject_def specPatterns_def toArray_def first_def

lemma firstMatch_iff:
  "firstMatch minimatch specFile ps = (\<exists>p \<in> set ps. minimatch specFile p)"
  by (induction ps) auto

subsection \<open>The loop of getLongestCommonPrefixFromPaths\<close>

text \<open>
  One pass of the inner loop leaves the candidate as it was except for holes at the
  indices where it differed from the other path, and sets \<open>end\<close> to the lowest such
  index. When no later path is, segment by segment, a prefix of the first path, the
  function returns the segments shared by all paths, joined with the separator.
\<close>

lemma splitBy_not_Nil: "splitBy p s \<noteq> []"
  by (induction s) (auto split: list.splits)

lemma readAt_deleteAt: "i \<noteq> k \<Longrightarrow> readAt (deleteAt lcp k) i = readAt lcp i"
  by (simp add: readAt_def deleteAt_def)

lemma scanParts_length: "length (fst (scanParts q k (lcp, e))) = length lcp"
  by (induction k arbitrary: lcp e) (auto simp: deleteAt_def)

lemma readAt_deleteAt_same: "readAt (deleteAt lcp k) k = None"
  by (simp add: readAt_def deleteAt_def)

lemma scanParts_read:
  "readAt (fst (scanParts q k (lcp, e))) i =
     (if i < k \<and> readAt lcp i \<noteq> Some (q ! i) then None else readAt lcp i)"
proof (induction k arbitrary: lcp e)
  case 0
  show ?case by simp
next
  case (Suc k)
  show ?case
  proof (cases "readAt lcp k \<noteq> Some (q ! k)")
    case True
    then have "readAt (fst (scanParts q (Suc k) (lcp, e))) i =
                 readAt (fst (scanParts q k (deleteAt lcp k, k))) i"
      by simp
    also have "\<dots> = (if i < k \<and> readAt (deleteAt lcp k) i \<noteq> Some (q ! i) then None
                      else readAt (deleteAt lcp k) i)"
      by (rule Suc.IH)
    also have "\<dots> = (if i < Suc k \<and> readAt lcp i \<noteq> Some (q ! i) then None else readAt lcp i)"
      using True by (cases "i = k") (simp_all add: readAt_deleteAt readAt_deleteAt_same)
    finally show ?thesis .
  next
    case False
    then have "readAt (fst (scanParts q (Suc k) (lcp, e))) i =
                 readAt (fst (scanParts q k (lcp, e))) i"
      by simp
    also have "\<dots> = (if i < k \<and> readAt lcp i \<noteq> Some (q ! i) then None else readAt lcp i)"
      by (rule Suc.IH)
    also have "\<dots> = (if i < Suc k \<and> readAt lcp i \<noteq> Some (q ! i) then None else readAt lcp i)"
      using False by (cases "i = k") auto
    finally show ?thesis .
  qed
qed

lemma scanParts_no_mismatch:
  "(\<forall>i<k. readAt lcp i = Some (q ! i)) \<Longrightarrow> snd (scanParts q k (lcp, e)) = e"
  by (induction k arbitrary: lcp e) auto

lemma scanParts_first_mismatch:
  assumes "j < k" and "readAt lcp j \<noteq> Some (q ! j)" and "\<forall>i<j. readAt lcp i = Some (q ! i)"
  shows "snd (scanParts q k (lcp, e)) = j"
  using assms
proof (induction k arbitrary: lcp e)
  case 0
  then show ?case by simp
next
  case (Suc k)
  show ?case
  proof (cases "j = k")
    case True
    with Suc.prems have "\<forall>i<k. readAt (deleteAt lcp k) i = Some (q ! i)"
      by (simp add: readAt_deleteAt)
    then have "snd (scanParts q k (deleteAt lcp k, k)) = k"
      by (rule scanParts_no_mismatch)
    with True Suc.prems show ?thesis by simp
  next
    case False
    with Suc.prems have jk: "j < k" by simp
    show ?thesis
    proof (cases "readAt lcp k \<noteq> Some (q ! k)")
      case True
      have "snd (scanParts q k (deleteAt lcp k, k)) = j"
        using jk Suc.prems by (intro Suc.IH) (auto simp: readAt_deleteAt)
      with True show ?thesis by simp
    next
      case False
      have "snd (scanParts q k (lcp, e)) = j"
        using jk Suc.prems by (intro Suc.IH) auto
      with False show ?thesis by simp
    qed
  qed
qed


lemma agrees_initial: "agrees parts0 (map Some parts0) (length parts0)"
  by (simp add: agrees_def readAt_def)

lemma longest_common_prefix_differs:
  assumes "length (longest_common_prefix xs ys) < length xs"
    and "length (longest_common_prefix xs ys) < length ys"
  shows "xs ! length (longest_common_prefix xs ys) \<noteq> ys ! length (longest_common_prefix xs ys)"
  using assms by (induction xs ys rule: longest_common_prefix.induct) auto

lemma longest_common_prefix_nth:
  "i < length (longest_common_prefix xs ys) \<Longrightarrow> xs ! i = ys ! i"
proof (induction xs ys arbitrary: i rule: longest_common_prefix.induct)
  case (1 x xs y ys)
  then show ?case by (cases i) (auto split: if_splits)
qed auto

lemma longest_common_prefix_take:
  "longest_common_prefix xs ys = take (length (longest_common_prefix xs ys)) xs"
  by (metis longest_common_prefix_prefix1 append_eq_conv_conj prefix_def)

lemma prefix_same_length: "prefix xs ys \<Longrightarrow> length xs = length ys \<Longrightarrow> xs = ys"
  by (auto simp: prefix_def)

lemma scanParts_step:
  assumes inv: "agrees parts0 lcp e"
    and np: "\<not> prefix q parts0"
    and scan: "scanParts q (length q) (lcp, e) = (lcp', e')"
  shows "agrees parts0 lcp' e' \<and> take e' parts0 = longest_common_prefix (take e parts0) q"
proof -
  let ?c = "longest_common_prefix (take e parts0) q"
  let ?m = "length ?c"
  from inv have len: "length lcp = length parts0" and e_le: "e \<le> length parts0"
    and below: "\<forall>i<e. readAt lcp i = Some (parts0 ! i)" and at_e: "readAt lcp e = None"
    by (simp_all add: agrees_def)
  have c1: "prefix ?c (take e parts0)" by (rule longest_common_prefix_prefix1)
  have c2: "prefix ?c q" by (rule longest_common_prefix_prefix2)
  from c1 e_le have m_le_e: "?m \<le> e"
    by (metis prefix_length_le length_take min.absorb2)
  from c2 have m_le_q: "?m \<le> length q" by (rule prefix_length_le)
  have m_lt_q: "?m < length q"
  proof (rule ccontr)
    assume "\<not> ?m < length q"
    with m_le_q have "?m = length q" by simp
    with c2 have "?c = q" by (rule prefix_same_length)
    with c1 have "prefix q (take e parts0)" by simp
    then have "prefix q parts0" by (metis prefix_order.trans take_is_prefix)
    with np show False by simp
  qed
  have agree_below: "\<forall>i<?m. readAt lcp i = Some (q ! i)"
  proof (intro allI impI)
    fix i assume i: "i < ?m"
    with m_le_e have "readAt lcp i = Some (parts0 ! i)" using below by simp
    moreover from i have "take e parts0 ! i = q ! i" by (rule longest_common_prefix_nth)
    moreover from i m_le_e have "take e parts0 ! i = parts0 ! i" by simp
    ultimately show "readAt lcp i = Some (q ! i)" by simp
  qed
  have mismatch: "readAt lcp ?m \<noteq> Some (q ! ?m)"
  proof (cases "?m = e")
    case True
    with at_e show ?thesis by simp
  next
    case False
    with m_le_e have m_lt_e: "?m < e" by simp
    with e_le have "?m < length (take e parts0)" by simp
    then have "take e parts0 ! ?m \<noteq> q ! ?m"
      using m_lt_q by (rule longest_common_prefix_differs)
    moreover from m_lt_e have "take e parts0 ! ?m = parts0 ! ?m" by simp
    moreover from m_lt_e below have "readAt lcp ?m = Some (parts0 ! ?m)" by simp
    ultimately show ?thesis by simp
  qed
  have "snd (scanParts q (length q) (lcp, e)) = ?m"
    using m_lt_q mismatch agree_below by (rule scanParts_first_mismatch)
  with scan have e': "e' = ?m" by simp
  from scan have lcp': "lcp' = fst (scanParts q (length q) (lcp, e))" by simp
  have read': "readAt lcp' i =
      (if i < length q \<and> readAt lcp i \<noteq> Some (q ! i) then None else readAt lcp i)" for i
    unfolding lcp' by (rule scanParts_read)
  have "length lcp' = length parts0"
    unfolding lcp' using len by (simp add: scanParts_length)
  moreover have "e' \<le> length parts0"
    using e' m_le_e e_le by simp
  moreover have "\<forall>i<e'. readAt lcp' i = Some (parts0 ! i)"
    using e' agree_below below m_le_e by (simp add: read')
  moreover have "readAt lcp' e' = None"
    using e' m_lt_q mismatch by (simp add: read')
  ultimately have "agrees parts0 lcp' e'"
    by (simp add: agrees_def)
  moreover have "take e' parts0 = ?c"
  proof -
    have "?c = take ?m (take e parts0)" by (rule longest_common_prefix_take)
    also have "\<dots> = take ?m parts0" using m_le_e by (simp add: min_def)
    finally show ?thesis using e' by simp
  qed
  ultimately show ?thesis by simp
qed

lemma agrees_take:
  assumes "agrees parts0 lcp e"
  shows "map (case_option [] id) (take e lcp) = take e parts0"
proof (rule nth_equalityI)
  from assms show "length (map (case_option [] id) (take e lcp)) = length (take e parts0)"
    by (simp add: agrees_def)
next
  fix i assume "i < length (map (case_option [] id) (take e lcp))"
  with assms have i: "i < e" and il: "i < length lcp" by (simp_all add: agrees_def)
  with assms have "readAt lcp i = Some (parts0 ! i)" by (simp add: agrees_def)
  with il have "lcp ! i = Some (parts0 ! i)" by (simp add: readAt_def)
  with i il show "map (case_option [] id) (take e lcp) ! i = take e parts0 ! i"
    by simp
qed

lemma lcpLoop_sharedSegments:
  assumes "agrees parts0 lcp e" and "parts0 \<noteq> []"
    and "\<forall>q \<in> set others. \<not> prefix (getPathParts q) parts0"
  shows "lcpLoop sep others lcp e =
           join sep (sharedSegments (take e parts0) (map getPathParts others))"
  using assms
proof (induction others arbitrary: lcp e)
  case Nil
  then show ?case by (simp add: agrees_take)
next
  case (Cons q others)
  obtain lcp' e' where scan: "scanParts (getPathParts q) (length (getPathParts q)) (lcp, e) = (lcp', e')"
    by (cases "scanParts (getPathParts q) (length (getPathParts q)) (lcp, e)") simp
  from Cons.prems have np: "\<not> prefix (getPathParts q) parts0" by simp
  from scanParts_step [OF Cons.prems(1) np scan]
  have inv': "agrees parts0 lcp' e'"
    and common: "take e' parts0 = longest_common_prefix (take e parts0) (getPathParts q)"
    by simp_all
  from inv' Cons.prems(2) have "length lcp' \<noteq> 0" by (simp add: agrees_def)
  then have "lcpLoop sep (q # others) lcp e = lcpLoop sep others lcp' e'"
    using scan by simp
  also have "\<dots> = join sep (sharedSegments (take e' parts0) (map getPathParts others))"
    using inv' Cons.prems by (intro Cons.IH) simp_all
  finally show ?case
    by (simp add: common)
qed

lemma getLongestCommonPrefixFromPaths_sharedSegments:
  assumes "p0 \<noteq> []" and "others \<noteq> []"
    and "\<forall>q \<in> set others. \<not> prefix (getPathParts q) (getPathParts p0)"
  shows "getLongestCommonPrefixFromPaths sep (p0 # others) =
           join sep (sharedSegments (getPathParts p0) (map getPathParts others))"
proof -
  have "getPathParts p0 \<noteq> []"
    by (simp add: getPathParts_def splitBy_not_Nil)
  with assms(3) have "lcpLoop sep others (map Some (getPathParts p0)) (length (getPathParts p0)) =
      join sep (sharedSegments (take (length (getPathParts p0)) (getPathParts p0))
        (map getPathParts others))"
    by (intro lcpLoop_sharedSegments agrees_initial)
  with assms(1,2) show ?thesis
    by (simp add: getLongestCommonPrefixFromPaths_def Let_def)
qed

subsection \<open>The file name of transformSpec\<close>

text \<open>
  \<open>fileName\<close> is the base name with the first occurrence of \<open>specFileExtension\<close>
  removed. When the base name ends with that extension and holds it nowhere else, the
  file name followed by the extension is the base name again.
\<close>

lemma replace_first_trailing:
  assumes "suffix ext base" and "\<forall>ys zs. base = ys @ ext @ zs \<longrightarrow> zs = []"
  shows "replace_first ext [] base @ ext = base"
  using assms
proof (induction base)
  case Nil
  from Nil.prems(1) have "ext = []"
    by simp
  then show ?case
    by simp
next
  case (Cons c cs)
  show ?case
  proof (cases "prefix ext (c # cs)")
    case True
    then obtain zs where zs: "c # cs = ext @ zs"
      by (rule prefixE)
    have "c # cs = [] @ ext @ zs \<longrightarrow> zs = []"
      using Cons.prems(2) by (rule allE) (erule allE)
    with zs have eq: "ext = c # cs"
      by simp
    have "replace_first ext [] (c # cs) = drop (length ext) (c # cs)"
      using True by simp
    also have "\<dots> = []"
      by (simp add: eq)
    finally show ?thesis
      by (simp add: eq)
  next
    case False
    then have "ext \<noteq> c # cs"
      by auto
    with Cons.prems(1) have suf: "suffix ext cs"
      by (simp add: suffix_Cons)
    have "\<forall>ys zs. cs = ys @ ext @ zs \<longrightarrow> zs = []"
    proof (intro allI impI)
      fix ys zs
      assume "cs = ys @ ext @ zs"
      then have "c # cs = (c # ys) @ ext @ zs"
        by simp
      moreover have "c # cs = (c # ys) @ ext @ zs \<longrightarrow> zs = []"
        using Cons.prems(2) by (rule allE) (erule allE)
      ultimately show "zs = []"
        by (rule rev_mp)
    qed
    with suf have "replace_first ext [] cs @ ext = cs"
      by (rule Cons.IH)
    with False show ?thesis
      by simp
  qed
qed

lemma transformSpec_fileName:
  "fileName (transformSpec path projectRoot absolute0 testingType commonRoot platform sep) =
     replace_first
       (specFileExtension (transformSpec path projectRoot absolute0 testingType commonRoot platform sep)) []
       (baseName (transformSpec path projectRoot absolute0 testingType commonRoot platform sep))"
  unfolding transformSpec_def Let_def
  by (simp only: FoundSpec.simps SpecWithRelativeRoot.simps)

lemma transformSpec_round_trip:
  fixes path :: path_module and projectRoot absolute0 commonRoot platform sep :: string
    and testingType :: TestingType
  defines "r \<equiv> transformSpec path projectRoot absolute0 testingType commonRoot platform sep"
  assumes "suffix (specFileExtension r) (baseName r)"
    and "\<forall>ys zs. baseName r = ys @ specFileExtension r @ zs \<longrightarrow> zs = []"
  shows "fileName r @ specFileExtension r = baseName r"
proof -
  have "fileName r = replace_first (specFileExtension r) [] (baseName r)"
    unfolding r_def by (rule transformSpec_fileName)
  moreover have "replace_first (specFileExtension r) [] (baseName r) @ specFileExtension r
                   = baseName r"
    using assms(2,3) by (rule replace_first_trailing)
  ultimately show ?thesis
    by simp
qed

subsection \<open>The claims\<close>

text \<open>
  What \<open>defaultSpecFileName\<close> answers in its first two cases: with a current project and
  a testing type, a configuration that loads, and either no first pattern, an empty one,
  or the default one of the testing type, it is the string built by the template literal
  of the source, \<open>cypress/<testingType>/filename.cy.<ext>/\<close>.
\<close>

lemma defaultSpecFileName_default_cases:
  assumes "\<not> noCurrentProject (ctx s)"
    and "currentTestingType (ctx s) = Some t"
    and "specPatterns s = Inr patterns"
    and "specPattern patterns = None \<or> specPattern patterns = Some []
         \<or> (\<exists>rest. specPattern patterns = Some ([] # rest))
         \<or> (\<exists>rest. specPattern patterns = Some (defaultSpecPattern t # rest))"
  shows "defaultSpecFileName path libs defaultSpecPattern s =
           Some (''cypress/'' @ testingTypeName t @ ''/filename.cy.''
                   @ extensionName (fileExtensionToUse (ctx s)) @ ''/'')"
  using assms
  by (auto simp add: defaultSpecFileName_def defaultSpecFileNameTry_def defaultFilenameOf_def
      first_def Let_def)

text \<open>
  C1. The claim: with a current project and a testing type set, \<open>defaultSpecFileName\<close>
  returns exactly \<open>cypress/<testingType>/filename.cy.<ext>\<close>, both when no spec pattern
  is configured and when the first configured pattern is the default one of the testing
  type. On the project at \<open>/p\<close> (end-to-end, JavaScript) the code returns, in both
  cases, \<open>cypress/e2e/filename.cy.js/\<close>: the template literal of the source ends in a
  slash, so the answer is not the path \<open>cypress/e2e/filename.cy.js\<close> of the claim.
\<close>

theorem defaultSpecFileName_default_has_trailing_slash:
  "defaultSpecFileName (posix ''/'') plain_libs sampleDefaultSpecPattern exampleSource
     = Some ''cypress/e2e/filename.cy.js/''
   \<and> defaultSpecFileName (posix ''/'') plain_libs sampleDefaultSpecPattern
         (withConfig (Arr [sampleDefaultSpecPattern e2e]) Undefined exampleSource)
     = Some ''cypress/e2e/filename.cy.js/''
   \<and> defaultSpecFileName (posix ''/'') plain_libs sampleDefaultSpecPattern exampleSource
     \<noteq> Some ''cypress/e2e/filename.cy.js''"
  by (simp add: defaultSpecFileName_def defaultSpecFileNameTry_def defaultFilenameOf_def
      source_defs sampleDefaultSpecPattern_def)

text \<open>
  C2. The claim: for every list of two or more paths, \<open>getLongestCommonPrefixFromPaths\<close>
  returns the deepest directory prefix shared by all of them, joined with the path
  separator. The two examples of the claim hold with the separator \<open>/\<close>. On
  \<open>["/a/b/c.js", "/a/b"]\<close> the inner loop visits only the indices of the shorter second
  path, finds no difference, and the function returns the whole first path
  \<open>/a/b/c.js\<close>, which is no prefix of \<open>/a/b\<close>; on a path given twice it returns the
  path itself, not its directory.
\<close>

theorem getLongestCommonPrefixFromPaths_shorter_path:
  "getLongestCommonPrefixFromPaths ''/'' [''/a/b/c.js'', ''/a/b/d.js''] = ''/a/b''
   \<and> getLongestCommonPrefixFromPaths ''/'' [''/a/b/c.js'', ''/a/x/d.js''] = ''/a''
   \<and> getLongestCommonPrefixFromPaths ''/'' [''/a/b/c.js'', ''/a/b''] = ''/a/b/c.js''
   \<and> \<not> prefix ''/a/b/c.js'' ''/a/b''
   \<and> getLongestCommonPrefixFromPaths ''/'' [''/a/b/c.js'', ''/a/b/c.js''] = ''/a/b/c.js''"
  by (simp add: getLongestCommonPrefixFromPaths_def getPathParts_def readAt_def deleteAt_def)

text \<open>
  C3. The claim: for a descriptor produced by \<open>transformSpec\<close>, whenever
  \<open>specFileExtension\<close> ends with \<open>fileExtension\<close>, \<open>baseName\<close> is \<open>fileName\<close> followed
  by \<open>specFileExtension\<close>. For \<open>/p/a.js.b.js\<close> both extensions are \<open>.js\<close>;
  \<open>replace\<close> removes the first \<open>.js\<close> of the base name, not the trailing one, so
  \<open>fileName\<close> is \<open>a.b.js\<close> and \<open>fileName + specFileExtension\<close> is \<open>a.b.js.js\<close>,
  not the base name \<open>a.js.b.js\<close>.
\<close>

theorem transformSpec_fileName_first_occurrence:
  "(let r = transformSpec (posix ''/'') ''/p'' ''/p/a.js.b.js'' e2e ''/p'' ''linux'' ''/''
    in fileExtension r = ''.js'' \<and> specFileExtension r = ''.js''
       \<and> suffix (fileExtension r) (specFileExtension r)
       \<and> baseName r = ''a.js.b.js'' \<and> fileName r = ''a.b.js''
       \<and> fileName r @ specFileExtension r \<noteq> baseName r)"
  by (simp add: transformSpec_def Let_def posix_def posix_base_def posix_extname_def
      posix_ext_of_def findOr_def specSuffixes_def suffix_to_prefix)

text \<open>
  C4. With a current project and a testing type, and a configuration that loads,
  \<open>matchesSpecPattern\<close> answers \<open>false\<close> as soon as the path matches one exclude
  pattern, whatever the include patterns; when no exclude pattern matches, it answers
  \<open>true\<close> exactly when some include pattern matches.
\<close>

theorem matchesSpecPattern_exclusion_precedence:
  assumes "\<not> noCurrentProject (ctx s)"
    and "currentTestingType (ctx s) = Some t"
    and "specPatterns s = Inr patterns"
    and "excl = (case excludeSpecPattern patterns of None \<Rightarrow> [] | Some ps \<Rightarrow> ps)"
    and "incl = (case specPattern patterns of None \<Rightarrow> [] | Some ps \<Rightarrow> ps)"
  shows "matchesSpecPattern minimatch s specFile =
           Inr (\<not> (\<exists>p \<in> set excl. minimatch specFile p)
                \<and> (\<exists>p \<in> set incl. minimatch specFile p))"
  using assms by (simp add: matchesSpecPattern_def firstMatch_iff)

theorem matchesSpecPattern_exclusion_precedence_witness:
  "matchesSpecPattern literalMatch
     (withConfig (Arr [''src/b.cy.js'', ''src/a.cy.js'']) (Str ''src/a.cy.js'') exampleSource)
     ''src/a.cy.js'' = Inr False
   \<and> matchesSpecPattern literalMatch
     (withConfig (Arr [''src/b.cy.js'', ''src/a.cy.js'']) (Str ''src/c.cy.js'') exampleSource)
     ''src/a.cy.js'' = Inr True"
proof -
  let ?s = "\<lambda>excl. withConfig (Arr [''src/b.cy.js'', ''src/a.cy.js'']) (Str excl) exampleSource"
  have project: "\<not> noCurrentProject (ctx (?s excl))" for excl
    by (simp add: source_defs)
  have testing: "currentTestingType (ctx (?s excl)) = Some e2e" for excl
    by (simp add: source_defs)
  have patterns: "excl \<noteq> [] \<Longrightarrow> specPatterns (?s excl) =
      Inr \<lparr> specPattern = Some [''src/b.cy.js'', ''src/a.cy.js''],
            excludeSpecPattern = Some [excl] \<rparr>" for excl
    by (simp add: source_defs)
  show ?thesis
    using matchesSpecPattern_exclusion_precedence
            [OF project testing patterns refl refl, of "''src/a.cy.js''" literalMatch "''src/a.cy.js''"]
          matchesSpecPattern_exclusion_precedence
            [OF project testing patterns refl refl, of "''src/c.cy.js''" literalMatch "''src/a.cy.js''"]
    by (simp add: literalMatch_def)
qed


lemma defaultSpecFileName_sharedSegments:
  assumes "\<not> noCurrentProject (ctx s)"
    and "currentTestingType (ctx s) = Some t"
    and "specPatterns s = Inr patterns"
    and "specPattern patterns = Some (pat # rest)"
    and "pat \<noteq> []"
    and "pat \<noteq> defaultSpecPattern t"
    and "map relative (specs s) = p0 # others"
    and "p0 \<noteq> []"
    and "others \<noteq> []"
    and "\<forall>q \<in> set others. \<not> prefix (getPathParts q) (getPathParts p0)"
    and "join (path_sep path) (sharedSegments (getPathParts p0) (map getPathParts others)) \<noteq> []"
  shows "defaultSpecFileName path libs defaultSpecPattern s =
           Some (join (path_sep path) (sharedSegments (getPathParts p0) (map getPathParts others)))"
proof -
  have "getLongestCommonPrefixFromPaths (path_sep path) (map relative (specs s)) =
          join (path_sep path) (sharedSegments (getPathParts p0) (map getPathParts others))"
    unfolding assms(7) using assms(8,9,10) by (rule getLongestCommonPrefixFromPaths_sharedSegments)
  with assms(1-6,11) show ?thesis
    by (simp add: defaultSpecFileName_def defaultSpecFileNameTry_def first_def Let_def)
qed



text \<open>
  C6. \<open>transformSpec\<close> sets \<open>specFileExtension\<close> to the first of \<open>.spec\<close>, \<open>.test\<close>,
  \<open>-spec\<close>, \<open>-test\<close>, \<open>.cy\<close>, each followed by the file extension of the path, that
  the absolute path ends with, and to the file extension when it ends with none of
  them. The absolute path is the one of the descriptor: the argument, turned to
  forward slashes on \<open>win32\<close>.
\<close>

theorem transformSpec_specFileExtension:
  fixes path :: path_module and projectRoot absolute0 commonRoot platform sep :: string
    and testingType :: TestingType
  defines "r \<equiv> transformSpec path projectRoot absolute0 testingType commonRoot platform sep"
  shows "absolute r = (if platform = ''win32'' then toPosix absolute0 sep else absolute0)
         \<and> fileExtension r = path_extname path (absolute r)
         \<and> specFileExtension r =
           (if suffix (''.spec'' @ fileExtension r) (absolute r) then ''.spec'' @ fileExtension r
            else if suffix (''.test'' @ fileExtension r) (absolute r) then ''.test'' @ fileExtension r
            else if suffix (''-spec'' @ fileExtension r) (absolute r) then ''-spec'' @ fileExtension r
            else if suffix (''-test'' @ fileExtension r) (absolute r) then ''-test'' @ fileExtension r
            else if suffix (''.cy'' @ fileExtension r) (absolute r) then ''.cy'' @ fileExtension r
            else fileExtension r)"
  unfolding r_def
  by (simp add: transformSpec_def Let_def findOr_def specSuffixes_def)

text \<open>
  C7. On the glob \<open>cypress/e2e/**/*.cy.js\<close> with testing type \<open>e2e\<close> and preferred
  extension \<open>js\<close>, \<open>getLongestCommonPrefixFromGlob\<close> returns the concrete string
  \<open>cypress/e2e/filename.cy.js\<close>: it ends in \<open>.cy.js\<close>, its directories are
  \<open>cypress\<close> and \<open>e2e\<close>, and it holds no glob character. This holds whenever the
  four library calls made on the way answer as the libraries document: \<open>parse-glob\<close>
  splits the glob into the directory \<open>cypress/e2e/**/\<close>, the file name \<open>*\<close>, the
  extension name \<open>.cy.js\<close> and the extension \<open>js\<close>; the brace expansion and the
  filter \<open>*.js\<close> keep the literal path \<open>cypress/e2e/filename.cy.js\<close>; and
  \<open>randexp\<close> generates that path from its escaped spelling.
\<close>

theorem getLongestCommonPrefixFromGlob_e2e_example:
  assumes "parseGlob libs ''cypress/e2e/**/*.cy.js'' =
             Inr \<lparr> is_glob = True, glob_dirname = ''cypress/e2e/**/'', glob_filename = ''*'',
                   glob_extname = ''.cy.js'', glob_ext = ''js'' \<rparr>"
    and "mm_braces libs ''cypress/e2e/filename.cy.js'' = Inr [''cypress/e2e/filename.cy.js'']"
    and "mm_basename libs [''cypress/e2e/filename.cy.js''] ''*.js''
           = Inr [''cypress/e2e/filename.cy.js'']"
    and "randexp_gen libs escapedExample = Inr ''cypress/e2e/filename.cy.js''"
  shows "getLongestCommonPrefixFromGlob libs ''cypress/e2e/**/*.cy.js'' e2e (Some js)
           = Inr (Some ''cypress/e2e/filename.cy.js'')
         \<and> suffix ''.cy.js'' ''cypress/e2e/filename.cy.js''
         \<and> butlast (js_split ''/'' ''cypress/e2e/filename.cy.js'') = [''cypress'', ''e2e'']
         \<and> set ''cypress/e2e/filename.cy.js'' \<inter> set ''*!?{}(|)[]'' = {}"
proof -
  have "getLongestCommonPrefixFromGlob libs ''cypress/e2e/**/*.cy.js'' e2e (Some js)
          = Inr (Some ''cypress/e2e/filename.cy.js'')"
    using assms
    by (simp add: getLongestCommonPrefixFromGlob_def generateFromGlobs_def Let_def js_split_def
        replaceWildCard_def replace_char_def first_def escapedExample_def suffix_to_prefix)
  moreover have "suffix ''.cy.js'' ''cypress/e2e/filename.cy.js''"
    by (simp add: suffix_to_prefix)
  moreover have "butlast (js_split ''/'' ''cypress/e2e/filename.cy.js'') = [''cypress'', ''e2e'']"
    by (simp add: js_split_def)
  moreover have "set ''cypress/e2e/filename.cy.js'' \<inter> set ''*!?{}(|)[]'' = {}"
    by simp
  ultimately show ?thesis
    by simp
qed

theorem getLongestCommonPrefixFromGlob_e2e_example_witness:
  "getLongestCommonPrefixFromGlob plain_libs ''cypress/e2e/**/*.cy.js'' e2e (Some js)
           = Inr (Some ''cypress/e2e/filename.cy.js'')
         \<and> suffix ''.cy.js'' ''cypress/e2e/filename.cy.js''
         \<and> butlast (js_split ''/'' ''cypress/e2e/filename.cy.js'') = [''cypress'', ''e2e'']
         \<and> set ''cypress/e2e/filename.cy.js'' \<inter> set ''*!?{}(|)[]'' = {}"
proof (rule getLongestCommonPrefixFromGlob_e2e_example)
  show "parseGlob plain_libs ''cypress/e2e/**/*.cy.js'' =
          Inr \<lparr> is_glob = True, glob_dirname = ''cypress/e2e/**/'', glob_filename = ''*'',
                glob_extname = ''.cy.js'', glob_ext = ''js'' \<rparr>"
    by (simp add: plain_libs_def plain_parseGlob_def Let_def)
  show "mm_braces plain_libs ''cypress/e2e/filename.cy.js'' = Inr [''cypress/e2e/filename.cy.js'']"
    by (simp add: plain_libs_def plain_braces_def)
  show "mm_basename plain_libs [''cypress/e2e/filename.cy.js''] ''*.js''
          = Inr [''cypress/e2e/filename.cy.js'']"
    by (simp add: plain_libs_def plain_basename_def Let_def suffix_to_prefix)
  show "randexp_gen plain_libs escapedExample = Inr ''cypress/e2e/filename.cy.js''"
    by (simp add: plain_libs_def plain_randexp_def escapedExample_def)
qed

text \<open>
  C8. \<open>startSpecWatcher\<close> called when no current project is set throws the error
  \<open>Cannot start spec watcher without current project\<close>: the outcome is the error, not
  a returned value.
\<close>

theorem startSpecWatcher_without_project_throws:
  assumes "noCurrentProject (ctx s)"
  shows "fst (startSpecWatcher close s projectRoot testingType specPattern1 excludeSpecPattern1
                additionalIgnore)
           = Inl (Error ''Cannot start spec watcher without current project'')"
  using assms
  by (simp add: startSpecWatcher_def stopSpecWatcher_def Let_def
      split: option.splits prod.splits sum.splits)

theorem startSpecWatcher_without_project_throws_witness:
  "noCurrentProject (ctx (withoutProject exampleSource))
   \<and> fst (startSpecWatcher closeRejects (withoutProject exampleSource) ''/p'' e2e
            [''cypress/e2e/**/*.cy.js''] [] [])
       = Inl (Error ''Cannot start spec watcher without current project'')"
proof -
  have none: "noCurrentProject (ctx (withoutProject exampleSource))"
    by (simp add: source_defs)
  show ?thesis
    using none startSpecWatcher_without_project_throws [OF none]
    by simp
qed

text \<open>
  C9. \<open>stopSpecWatcher\<close> never raises: whatever \<open>close()\<close> answers, the call returns
  normally, the handle is reset, and the only effect is that a watcher that was running
  has been closed; a rejection of \<open>close()\<close> is handled, none is left unhandled. A
  second call in a row returns normally and changes nothing, and so does a call when no
  watcher is running.
\<close>

theorem stopSpecWatcher_never_raises:
  "fst (stopSpecWatcher close s) = Inr ()
   \<and> specWatcher (snd (stopSpecWatcher close s)) = None
   \<and> effects (snd (stopSpecWatcher close s)) =
       effects s @ (case specWatcher s of None \<Rightarrow> [] | Some w \<Rightarrow> [Closed w])
   \<and> stopSpecWatcher close' (snd (stopSpecWatcher close s))
       = (Inr (), snd (stopSpecWatcher close s))
   \<and> stopSpecWatcher close (s\<lparr>specWatcher := None\<rparr>) = (Inr (), s\<lparr>specWatcher := None\<rparr>)"
  by (simp add: stopSpecWatcher_def catch_def Let_def split: option.splits promise.splits)

text \<open>
  C10. \<open>startSpecWatcher\<close> calls \<open>stopSpecWatcher\<close> before it looks at the current
  project. When it throws because no current project is set, the state it leaves is the
  one \<open>stopSpecWatcher\<close> leaves: a watcher that was running has been closed and the
  handle is \<open>null\<close>, so the failing call does not preserve the watcher field.
\<close>

theorem startSpecWatcher_stops_before_check:
  assumes "noCurrentProject (ctx s)"
  shows "startSpecWatcher close s projectRoot testingType specPattern1 excludeSpecPattern1
           additionalIgnore
           = (Inl (Error ''Cannot start spec watcher without current project''),
              snd (stopSpecWatcher close s))
         \<and> specWatcher (snd (startSpecWatcher close s projectRoot testingType specPattern1
                  excludeSpecPattern1 additionalIgnore)) = None
         \<and> effects (snd (startSpecWatcher close s projectRoot testingType specPattern1
                  excludeSpecPattern1 additionalIgnore)) =
             effects s @ (case specWatcher s of None \<Rightarrow> [] | Some w \<Rightarrow> [Closed w])"
  using assms
  by (simp add: startSpecWatcher_def stopSpecWatcher_def catch_def Let_def
      split: option.splits prod.splits sum.splits promise.splits)

theorem startSpecWatcher_stops_before_check_witness:
  "specWatcher ((withoutProject exampleSource)\<lparr>specWatcher := Some exampleWatcher\<rparr>)
     = Some exampleWatcher
   \<and> startSpecWatcher closeRejects
       ((withoutProject exampleSource)\<lparr>specWatcher := Some exampleWatcher\<rparr>)
       ''/p'' e2e [''cypress/e2e/**/*.cy.js''] [] []
     = (Inl (Error ''Cannot start spec watcher without current project''),
        (withoutProject exampleSource)\<lparr>specWatcher := None, effects := [Closed exampleWatcher]\<rparr>)"
proof -
  let ?s = "(withoutProject exampleSource)\<lparr>specWatcher := Some exampleWatcher\<rparr>"
  have none: "noCurrentProject (ctx ?s)"
    by (simp add: source_defs)
  have stopped: "snd (stopSpecWatcher closeRejects ?s)
      = (withoutProject exampleSource)\<lparr>specWatcher := None, effects := [Closed exampleWatcher]\<rparr>"
    by (simp add: stopSpecWatcher_def catch_def closeRejects_def source_defs)
  show ?thesis
    using startSpecWatcher_stops_before_check [OF none, of closeRejects "''/p''" e2e
            "[''cypress/e2e/**/*.cy.js'']" "[]" "[]"]
    by (simp add: stopped)
qed

end
